theory Spec2Isabelle
  imports Main
begin

section \<open>The interpreter engine\<close>

text \<open>
  Modelled from the spec: the interpreter engine (the \<open>pyodide\<close> package) is an external
  dependency of \<open>PythonEditor.tsx\<close>; the spec asks of it an "execute source, may raise"
  operation, a redirectable textual output channel and an enumerable collection of the
  figures currently open. The model keeps the part of the engine's state that the Python
  scripts embedded in \<open>runPython\<close> depend on: the object bound to \<open>sys.stdout\<close>; the
  open figures with their numbers, in the order of their creation; the error that an
  \<open>import\<close> statement raises, and the error that a use of the global name \<open>plt\<close>
  raises (\<open>None\<close> when there is none: the imports resolve, \<open>plt\<close> names
  \<open>matplotlib.pyplot\<close>). A source text can change each of the four.
\<close>

datatype stream = Console | StringIO string

record 'f py =
  sys_stdout :: stream
  figs :: "(nat \<times> 'f) list"
  import_fault :: "string option"
  plt_fault :: "string option"

text \<open>
  One execution of a source text either returns, raises an error with a message (the
  engine's state is what the text made of it before the raise), or never returns.
\<close>

datatype 'f py_result = Returns "'f py" | Raises string "'f py" | Hangs

type_synonym 'f interp = "string \<Rightarrow> 'f py \<Rightarrow> 'f py_result"

text \<open>
  The engine as \<open>loadPyodide\<close> hands it back: nothing redirected, no figure open, the
  name \<open>plt\<close> not bound yet.
\<close>

definition fresh_py :: "'f py" where
  "fresh_py = \<lparr>sys_stdout = Console, figs = [], import_fault = None,
               plt_fault = Some ''NameError: name 'plt' is not defined''\<rparr>"

text \<open>
  What a \<open>print\<close> of a source text does to that state, and what \<open>plt.figure()\<close> and
  \<open>plt.figure(n)\<close> do: the first opens a figure under the number after the greatest one
  in use, the second opens one under the number \<open>n\<close> unless that number is in use.
\<close>

definition py_write :: "string \<Rightarrow> 'f py \<Rightarrow> 'f py" where
  "py_write s e =
     (case sys_stdout e of
        StringIO b \<Rightarrow> e\<lparr>sys_stdout := StringIO (b @ s)\<rparr>
      | Console \<Rightarrow> e)"

definition next_num :: "'f py \<Rightarrow> nat" where
  "next_num e = Suc (foldr max (map fst (figs e)) 0)"

definition py_figure :: "'f \<Rightarrow> 'f py \<Rightarrow> 'f py" where
  "py_figure f e = e\<lparr>figs := figs e @ [(next_num e, f)]\<rparr>"

definition py_figure_num :: "nat \<Rightarrow> 'f \<Rightarrow> 'f py \<Rightarrow> 'f py" where
  "py_figure_num n f e =
     (if n \<in> set (map fst (figs e)) then e else e\<lparr>figs := figs e @ [(n, f)]\<rparr>)"

subsection \<open>The scripts of \<open>PythonEditor.tsx\<close>\<close>

text \<open>
  Lines 46-49: \<open>import matplotlib.pyplot as plt\<close> binds the name \<open>plt\<close>;
  \<open>plt.switch_backend('agg')\<close> touches neither the channel nor the figures.
\<close>

definition configure_plotting :: "'f py \<Rightarrow> 'f py" where
  "configure_plotting e = e\<lparr>plt_fault := None\<rparr>"

text \<open>
  Lines 71-75: the two imports, then \<open>sys.stdout = StringIO()\<close>. The call is rejected
  when an import raises.
\<close>

definition redirect_stdout :: "'f py \<Rightarrow> 'f py" where
  "redirect_stdout e = e\<lparr>sys_stdout := StringIO []\<rparr>"

definition preamble :: "'f py \<Rightarrow> string + 'f py" where
  "preamble e =
     (case import_fault e of
        Some message \<Rightarrow> Inl message
      | None \<Rightarrow> Inr (redirect_stdout e))"

text \<open>
  Line 79: \<open>sys.stdout.getvalue()\<close>. The call raises when the object bound to
  \<open>sys.stdout\<close> is no \<open>StringIO\<close> any more.
\<close>

definition no_getvalue :: string where
  "no_getvalue = ''AttributeError: getvalue''"

definition getvalue :: "'f py \<Rightarrow> string + string" where
  "getvalue e = (case sys_stdout e of StringIO b \<Rightarrow> Inr b | Console \<Rightarrow> Inl no_getvalue)"

text \<open>
  Lines 82-94. The call is rejected when an import raises or when \<open>plt\<close> can not be
  used; then no figure has been closed. Otherwise the loop goes over
  \<open>plt.get_fignums()\<close>, the numbers of the open figures in ascending order: each round
  takes the figure of that number, saves it as PNG (\<open>dpi=100\<close>,
  \<open>bbox_inches='tight'\<close>) in base64, which is the parameter \<open>savefig\<close>, appends it to
  \<open>plot_data\<close> and closes the figure.
\<close>

definition get_fignums :: "'f py \<Rightarrow> (nat \<times> 'f) list" where
  "get_fignums e = sort_key fst (figs e)"

fun drain_loop ::
  "('f \<Rightarrow> string) \<Rightarrow> (nat \<times> 'f) list \<Rightarrow> 'f py \<Rightarrow> string list \<Rightarrow> string list \<times> 'f py" where
  "drain_loop savefig [] e plot_data = (plot_data, e)"
| "drain_loop savefig ((i, fig) # fignums) e plot_data =
     drain_loop savefig fignums (e\<lparr>figs := filter (\<lambda>p. fst p \<noteq> i) (figs e)\<rparr>)
       (plot_data @ [savefig fig])"

definition drain_figures :: "('f \<Rightarrow> string) \<Rightarrow> 'f py \<Rightarrow> string + string list \<times> 'f py" where
  "drain_figures savefig e =
     (case import_fault e of
        Some message \<Rightarrow> Inl message
      | None \<Rightarrow>
          (case plt_fault e of
             Some message \<Rightarrow> Inl message
           | None \<Rightarrow> Inr (drain_loop savefig (get_fignums e) e [])))"

section \<open>The component \<open>PythonEditor\<close>\<close>

definition defaultCode :: string where
  "defaultCode =
     ''import numpy as np\<newline>'' @
     ''import matplotlib.pyplot as plt\<newline>'' @
     ''\<newline>'' @
     ''# '' @ [CHR 0xE3, CHR 0x83, CHR 0x87, CHR 0xE3, CHR 0x83, CHR 0xBC, CHR 0xE3, CHR 0x82,
              CHR 0xBF, CHR 0xE3, CHR 0x81, CHR 0xAE, CHR 0xE7, CHR 0x94, CHR 0x9F, CHR 0xE6,
              CHR 0x88, CHR 0x90] @ ''\<newline>'' @
     ''x = np.linspace(0, 10, 100)\<newline>'' @
     ''y1 = np.sin(x)\<newline>'' @
     ''y2 = np.cos(x)\<newline>'' @
     ''\<newline>'' @
     ''# '' @ [CHR 0xE3, CHR 0x83, CHR 0x97, CHR 0xE3, CHR 0x83, CHR 0xAD, CHR 0xE3, CHR 0x83,
              CHR 0x83, CHR 0xE3, CHR 0x83, CHR 0x88, CHR 0xE3, CHR 0x81, CHR 0xAE, CHR 0xE4,
              CHR 0xBD, CHR 0x9C, CHR 0xE6, CHR 0x88, CHR 0x90] @ ''\<newline>'' @
     ''plt.figure(figsize=(10, 6))\<newline>'' @
     ''plt.plot(x, y1, label='' @ [CHR 0x27] @ ''sin(x)'' @ [CHR 0x27] @ '')\<newline>'' @
     ''plt.plot(x, y2, label='' @ [CHR 0x27] @ ''cos(x)'' @ [CHR 0x27] @ '')\<newline>'' @
     ''plt.title('' @ [CHR 0x27] @ ''Sine and Cosine Waves'' @ [CHR 0x27] @ '')\<newline>'' @
     ''plt.xlabel('' @ [CHR 0x27] @ ''x'' @ [CHR 0x27] @ '')\<newline>'' @
     ''plt.ylabel('' @ [CHR 0x27] @ ''y'' @ [CHR 0x27] @ '')\<newline>'' @
     ''plt.grid(True)\<newline>'' @
     ''plt.legend()\<newline>'' @
     ''plt.show()''"

text \<open>
  The two asynchronous functions of the component are suspended at their \<open>await\<close>s. A
  suspended call is kept with the place it waits at and what its closure holds.
\<close>

datatype 'f load_task =
    NotStarted
  | AwaitRuntime
  | AwaitPackages "'f py"
  | AwaitBackend "'f py"
  | LoadDone

datatype run_pc = AwaitPreamble | AwaitUser | AwaitGetvalue | AwaitDrain

record run_task =
  pc :: run_pc
  code :: string

text \<open>
  The seven \<open>useState\<close> cells (lines 26-32; \<open>output\<close> is written \<open>output'\<close>),
  then the suspended calls. The cell \<open>pyodide\<close> holds the engine, \<open>None\<close> for
  \<open>null\<close>.
\<close>

record 'f world =
  output' :: string
  plots :: "string list"
  isLoading :: bool
  isRunning :: bool
  pyodide :: "'f py option"
  status :: string
  currentCode :: string
  loader :: "'f load_task"
  runs :: "run_task list"

definition init :: "'f world" where
  "init = \<lparr>output' = [], plots = [], isLoading = True, isRunning = False, pyodide = None,
           status = ''Initializing...'', currentCode = defaultCode,
           loader = NotStarted, runs = []\<rparr>"

subsection \<open>\<open>initPyodide\<close> (lines 35-58)\<close>

definition initPyodide_start :: "'f world \<Rightarrow> 'f world" where
  "initPyodide_start w = w\<lparr>status := ''Loading Python environment...'', loader := AwaitRuntime\<rparr>"

definition initPyodide_catch :: "string \<Rightarrow> 'f world \<Rightarrow> 'f world" where
  "initPyodide_catch message w = w\<lparr>status := ''Error: '' @ message, loader := LoadDone\<rparr>"

text \<open>
  The awaited promise settles: \<open>None\<close> when it resolves, \<open>Some message\<close> when it
  rejects with an error of that message.
\<close>

definition initPyodide_resume :: "string option \<Rightarrow> 'f world \<Rightarrow> 'f world" where
  "initPyodide_resume r w =
     (case loader w of
        NotStarted \<Rightarrow> w
      | LoadDone \<Rightarrow> w
      | AwaitRuntime \<Rightarrow>
          (case r of
             Some message \<Rightarrow> initPyodide_catch message w
           | None \<Rightarrow> w\<lparr>status := ''Loading NumPy and Matplotlib...'',
                       loader := AwaitPackages fresh_py\<rparr>)
      | AwaitPackages e \<Rightarrow>
          (case r of
             Some message \<Rightarrow> initPyodide_catch message w
           | None \<Rightarrow> w\<lparr>status := ''Configuring plotting...'', loader := AwaitBackend e\<rparr>)
      | AwaitBackend e \<Rightarrow>
          (case r of
             Some message \<Rightarrow> initPyodide_catch message w
           | None \<Rightarrow> w\<lparr>pyodide := Some (configure_plotting e), isLoading := False,
                       status := ''Ready!'', loader := LoadDone\<rparr>))"

text \<open>Line 60 under the empty dependency list of line 61: the effect runs once.\<close>

definition mount :: "'f world \<Rightarrow> 'f world" where
  "mount w = (case loader w of NotStarted \<Rightarrow> initPyodide_start w | _ \<Rightarrow> w)"

subsection \<open>\<open>runPython\<close> (lines 63-103)\<close>

text \<open>Lines 64-68 and the call of line 71, up to its \<open>await\<close>.\<close>

definition runPython_start :: "'f world \<Rightarrow> 'f world" where
  "runPython_start w =
     (case pyodide w of
        None \<Rightarrow> w
      | Some e \<Rightarrow> w\<lparr>isRunning := True, output' := ''Running...'', plots := [],
                    runs := runs w @ [\<lparr>pc = AwaitPreamble, code = currentCode w\<rparr>]\<rparr>)"

text \<open>Lines 100-102, after which the call is over.\<close>

definition runPython_finally :: "nat \<Rightarrow> 'f world \<Rightarrow> 'f world" where
  "runPython_finally n w =
     w\<lparr>isRunning := False, runs := take n (runs w) @ drop (Suc n) (runs w)\<rparr>"

text \<open>Lines 97-99.\<close>

definition runPython_catch :: "string \<Rightarrow> nat \<Rightarrow> 'f world \<Rightarrow> 'f world" where
  "runPython_catch message n w = runPython_finally n (w\<lparr>output' := ''Error: '' @ message\<rparr>)"

text \<open>Line 80: \<open>stdout || "Execution completed"\<close>; of the strings only the empty one is falsy.\<close>

definition or_completed :: "string \<Rightarrow> string" where
  "or_completed stdout = (if stdout = [] then ''Execution completed'' else stdout)"

definition suspend_at :: "run_pc \<Rightarrow> nat \<Rightarrow> 'f world \<Rightarrow> 'f world" where
  "suspend_at p n w = w\<lparr>runs := (runs w)[n := (runs w ! n)\<lparr>pc := p\<rparr>]\<rparr>"

text \<open>
  The engine call awaited by the suspended call \<open>n\<close> runs and settles, and the call goes
  on to its next \<open>await\<close> or to its end. The four awaited calls are inside the
  \<open>try\<close> of line 70: when one is rejected, the call goes on in the \<open>catch\<close>.
\<close>

definition runPython_resume ::
  "'f interp \<Rightarrow> ('f \<Rightarrow> string) \<Rightarrow> nat \<Rightarrow> 'f world \<Rightarrow> 'f world" where
  "runPython_resume exec savefig n w =
     (case pyodide w of
        None \<Rightarrow> w
      | Some e \<Rightarrow>
          (case pc (runs w ! n) of
             AwaitPreamble \<Rightarrow>
               (case preamble e of
                  Inr e' \<Rightarrow> suspend_at AwaitUser n (w\<lparr>pyodide := Some e'\<rparr>)
                | Inl message \<Rightarrow> runPython_catch message n w)
           | AwaitUser \<Rightarrow>
               (case exec (code (runs w ! n)) e of
                  Returns e' \<Rightarrow> suspend_at AwaitGetvalue n (w\<lparr>pyodide := Some e'\<rparr>)
                | Raises message e' \<Rightarrow> runPython_catch message n (w\<lparr>pyodide := Some e'\<rparr>)
                | Hangs \<Rightarrow> w)
           | AwaitGetvalue \<Rightarrow>
               (case getvalue e of
                  Inr stdout \<Rightarrow> suspend_at AwaitDrain n (w\<lparr>output' := or_completed stdout\<rparr>)
                | Inl message \<Rightarrow> runPython_catch message n w)
           | AwaitDrain \<Rightarrow>
               (case drain_figures savefig e of
                  Inr (figures, e') \<Rightarrow>
                    runPython_finally n (w\<lparr>pyodide := Some e', plots := figures\<rparr>)
                | Inl message \<Rightarrow> runPython_catch message n w)))"

definition settle :: "'f interp \<Rightarrow> ('f \<Rightarrow> string) \<Rightarrow> nat \<Rightarrow> 'f world \<Rightarrow> 'f world" where
  "settle exec savefig n w =
     (if n < length (runs w) then runPython_resume exec savefig n w else w)"

text \<open>One whole call of \<open>runPython\<close>, from line 64 through each of its four \<open>await\<close>s.\<close>

definition runPython :: "'f interp \<Rightarrow> ('f \<Rightarrow> string) \<Rightarrow> 'f world \<Rightarrow> 'f world" where
  "runPython exec savefig w =
     (let n = length (runs w) in
      settle exec savefig n (settle exec savefig n (settle exec savefig n
        (settle exec savefig n (runPython_start w)))))"

text \<open>
  Lines 70-99 in one piece, for a source text \<open>s\<close> and an engine \<open>e\<close>: the four awaited
  calls in turn up to the first that is rejected; what the call has published when it
  ends, and the engine as it leaves it. \<open>None\<close> when the source text never returns.
\<close>

datatype outcome = Failure string | Success string "string list"

definition try_block ::
  "'f interp \<Rightarrow> ('f \<Rightarrow> string) \<Rightarrow> string \<Rightarrow> 'f py \<Rightarrow> (outcome \<times> 'f py) option" where
  "try_block exec savefig s e =
     (case preamble e of
        Inl message \<Rightarrow> Some (Failure message, e)
      | Inr e0 \<Rightarrow>
          (case exec s e0 of
             Hangs \<Rightarrow> None
           | Raises message e1 \<Rightarrow> Some (Failure message, e1)
           | Returns e1 \<Rightarrow>
               (case getvalue e1 of
                  Inl message \<Rightarrow> Some (Failure message, e1)
                | Inr stdout \<Rightarrow>
                    (case drain_figures savefig e1 of
                       Inl message \<Rightarrow> Some (Failure message, e1)
                     | Inr (figures, e2) \<Rightarrow> Some (Success (or_completed stdout) figures, e2)))))"

text \<open>The two cells that show an outcome: lines 80 and 96, or line 98 after line 68.\<close>

fun shown :: "outcome \<Rightarrow> string" where
  "shown (Failure message) = ''Error: '' @ message"
| "shown (Success stdout figures) = stdout"

fun images :: "outcome \<Rightarrow> string list" where
  "images (Failure message) = []"
| "images (Success stdout figures) = figures"

subsection \<open>The handlers of the rendered page\<close>

text \<open>Lines 105-109: \<open>undefined\<close> and the empty string are falsy.\<close>

definition handleEditorChange :: "string option \<Rightarrow> 'f world \<Rightarrow> 'f world" where
  "handleEditorChange v w =
     (case v of
        None \<Rightarrow> w
      | Some s \<Rightarrow> if s = [] then w else w\<lparr>currentCode := s\<rparr>)"

text \<open>
  Lines 121-139: the Run button is rendered only once \<open>isLoading\<close> is false, and it is
  disabled while \<open>isRunning\<close>; otherwise a click calls \<open>runPython\<close>.
\<close>

definition click :: "'f world \<Rightarrow> 'f world" where
  "click w = (if isLoading w then w else if isRunning w then w else runPython_start w)"

subsection \<open>The session as a transition system\<close>

datatype event =
    Mount
  | LoadSettled "string option"
  | Click
  | Edit "string option"
  | Settle nat

definition step :: "'f interp \<Rightarrow> ('f \<Rightarrow> string) \<Rightarrow> event \<Rightarrow> 'f world \<Rightarrow> 'f world" where
  "step exec savefig ev w =
     (case ev of
        Mount \<Rightarrow> mount w
      | LoadSettled r \<Rightarrow> initPyodide_resume r w
      | Click \<Rightarrow> click w
      | Edit v \<Rightarrow> handleEditorChange v w
      | Settle n \<Rightarrow> settle exec savefig n w)"

fun steps :: "'f interp \<Rightarrow> ('f \<Rightarrow> string) \<Rightarrow> event list \<Rightarrow> 'f world \<Rightarrow> 'f world" where
  "steps exec savefig [] w = w"
| "steps exec savefig (ev # evs) w = steps exec savefig evs (step exec savefig ev w)"

text \<open>The phase of the session that the page shows, read off the state cells.\<close>

datatype phase = Uninitialized | Loading string | Ready | Running | Failed string

definition phase :: "'f world \<Rightarrow> phase" where
  "phase w =
     (case pyodide w of
        Some e \<Rightarrow> if isRunning w then Running else Ready
      | None \<Rightarrow>
          if status w = ''Initializing...'' then Uninitialized
          else if take 7 (status w) = ''Error: '' then Failed (drop 7 (status w))
          else Loading (status w))"

section \<open>Invariants of the session\<close>

fun label :: "'f load_task \<Rightarrow> string option" where
  "label NotStarted = Some ''Initializing...''"
| "label AwaitRuntime = Some ''Loading Python environment...''"
| "label (AwaitPackages e) = Some ''Loading NumPy and Matplotlib...''"
| "label (AwaitBackend e) = Some ''Configuring plotting...''"
| "label LoadDone = None"

definition loader_inv :: "'f world \<Rightarrow> bool" where
  "loader_inv w \<longleftrightarrow>
     (isLoading w \<longleftrightarrow> pyodide w = None) \<and>
     (case label (loader w) of
        Some l \<Rightarrow> status w = l \<and> pyodide w = None
      | None \<Rightarrow> if pyodide w = None then take 7 (status w) = ''Error: ''
                else status w = ''Ready!'')"

definition single_flight :: "'f world \<Rightarrow> bool" where
  "single_flight w \<longleftrightarrow>
     (isRunning w \<longleftrightarrow> runs w \<noteq> []) \<and> length (runs w) \<le> 1 \<and>
     (runs w \<noteq> [] \<longrightarrow> pyodide w \<noteq> None)"

definition consistent :: "'f world \<Rightarrow> bool" where
  "consistent w \<longleftrightarrow> loader_inv w \<and> single_flight w \<and> currentCode w \<noteq> []"

text \<open>
  What the page shows while a call of \<open>runPython\<close> is suspended: no image, and the
  placeholder of line 67 until line 80 has run, after which the text read from the buffer.
\<close>

definition drained_text :: "'f world \<Rightarrow> string option" where
  "drained_text w =
     (case pyodide w of
        None \<Rightarrow> None
      | Some e \<Rightarrow> (case getvalue e of Inl message \<Rightarrow> None | Inr b \<Rightarrow> Some (or_completed b)))"

definition display_inv :: "'f world \<Rightarrow> bool" where
  "display_inv w \<longleftrightarrow>
     (runs w \<noteq> [] \<longrightarrow>
        plots w = [] \<and>
        (pc (hd (runs w)) = AwaitDrain \<longrightarrow> drained_text w = Some (output' w)) \<and>
        (pc (hd (runs w)) \<noteq> AwaitDrain \<longrightarrow> output' w = ''Running...''))"

definition visible :: "'f world \<Rightarrow> bool" where
  "visible w \<longleftrightarrow> consistent w \<and> display_inv w"

section \<open>Sample source texts\<close>

text \<open>
  What the engine does on a few source texts, for the concrete runs below: the figures are
  named by their labels, \<open>sample_savefig\<close> stands for the PNG of a figure, and the
  messages of the errors are shortened (the engine's message is the whole traceback).
\<close>

definition sample_exec :: "string interp" where
  "sample_exec s e =
     (if s = ''print(1+1)'' then Returns (py_write ''2\<newline>'' e)
      else if s = ''print('ok')'' then Returns (py_write ''ok\<newline>'' e)
      else if s = ''pass'' then Returns e
      else if s = ''plt.figure('A')'' then Returns (py_figure ''A'' e)
      else if s = ''plt.figure('A'); plt.figure('B')'' then
        Returns (py_figure ''B'' (py_figure ''A'' e))
      else if s = ''print('ok'); plt.figure('A')'' then
        Returns (py_figure ''A'' (py_write ''ok\<newline>'' e))
      else if s = ''plt.figure(5); plt.figure(2)'' then
        Returns (py_figure_num 2 ''Figure 2'' (py_figure_num 5 ''Figure 5'' e))
      else if s = ''plt = None'' then
        Returns (e\<lparr>plt_fault := Some ''AttributeError: no attribute get_fignums''\<rparr>)
      else if s = ''plt = None; raise ValueError('x')'' then
        Raises ''ValueError: x''
          (e\<lparr>plt_fault := Some ''AttributeError: no attribute get_fignums''\<rparr>)
      else if s = ''raise ValueError('x')'' then Raises ''ValueError: x'' e
      else if s = ''plt.figure('A'); raise ValueError('x')'' then
        Raises ''ValueError: x'' (py_figure ''A'' e)
      else if s = ''print('hi'); raise ValueError('x')'' then
        Raises ''ValueError: x'' (py_write ''hi\<newline>'' e)
      else if s = ''while True: pass'' then Hangs
      else Raises ''SyntaxError: invalid syntax'' e)"

definition sample_savefig :: "string \<Rightarrow> string" where
  "sample_savefig fig = ''png:'' @ fig"

text \<open>
  The engine loads with no failure; the user types a source text, clicks Run, and the four
  engine calls that \<open>runPython\<close> awaits settle.
\<close>

definition load_ok :: "event list" where
  "load_ok = [Mount, LoadSettled None, LoadSettled None, LoadSettled None]"

definition submit :: "string \<Rightarrow> event list" where
  "submit s = [Edit (Some s), Click, Settle 0, Settle 0, Settle 0, Settle 0]"

definition sample_run :: "event list \<Rightarrow> string world" where
  "sample_run evs = steps sample_exec sample_savefig evs init"

section \<open>The scripts and one whole run\<close>

lemma drain_loop_all:
  "drain_loop savefig ps e acc =
     (acc @ map (savefig \<circ> snd) ps,
      e\<lparr>figs := filter (\<lambda>p. fst p \<notin> set (map fst ps)) (figs e)\<rparr>)"
proof (induction ps arbitrary: e acc)
  case Nil
  then show ?case by simp
next
  case (Cons p ps)
  obtain i fig where p: "p = (i, fig)"
    by (cases p)
  have "filter (\<lambda>q. fst q \<notin> set (map fst ps)) (filter (\<lambda>q. fst q \<noteq> i) (figs e)) =
        filter (\<lambda>q. fst q \<notin> set (map fst (p # ps))) (figs e)"
    by (auto simp: p intro: filter_cong)
  then show ?case
    by (simp add: p Cons.IH)
qed

lemma drain_figures_ok:
  assumes "import_fault e = None" and "plt_fault e = None"
  shows "drain_figures savefig e =
           Inr (map (savefig \<circ> snd) (get_fignums e), e\<lparr>figs := []\<rparr>)"
proof -
  have "filter (\<lambda>p. fst p \<notin> set (map fst (get_fignums e))) (figs e) = []"
    by (simp add: get_fignums_def filter_empty_conv)
  then show ?thesis
    using assms by (simp add: drain_figures_def drain_loop_all)
qed

lemma drain_figures_closes:
  "drain_figures savefig e = Inr (figures, e') \<Longrightarrow>
     figures = map (savefig \<circ> snd) (get_fignums e) \<and> e' = e\<lparr>figs := []\<rparr>"
  by (cases "import_fault e"; cases "plt_fault e")
     (simp_all add: drain_figures_ok, simp_all add: drain_figures_def)

lemma drain_figures_rejects:
  "drain_figures savefig e = Inl message \<Longrightarrow>
     import_fault e = Some message \<or> (import_fault e = None \<and> plt_fault e = Some message)"
  by (cases "import_fault e"; cases "plt_fault e") (simp_all add: drain_figures_def)

lemmas run_defs =
  runPython_def Let_def runPython_start_def settle_def runPython_resume_def suspend_at_def
  runPython_catch_def runPython_finally_def

lemma runPython_ends:
  assumes e: "pyodide w = Some e"
    and t: "try_block exec savefig (currentCode w) e = Some (r, e')"
  shows "runPython exec savefig w =
           w\<lparr>isRunning := False, output' := shown r, plots := images r, pyodide := Some e'\<rparr>"
proof (cases "preamble e")
  case (Inl message)
  then have "r = Failure message" and "e' = e"
    using t by (simp_all add: try_block_def)
  then show ?thesis
    using e Inl by (cases w) (simp add: run_defs)
next
  case (Inr e0)
  show ?thesis
  proof (cases "exec (currentCode w) e0")
    case Hangs
    then show ?thesis
      using t Inr by (simp add: try_block_def)
  next
    case (Raises message e1)
    then have "r = Failure message" and "e' = e1"
      using t Inr by (simp_all add: try_block_def)
    then show ?thesis
      using e Inr Raises by (simp add: run_defs)
  next
    case (Returns e1)
    show ?thesis
    proof (cases "getvalue e1")
      case (Inl message)
      then have "r = Failure message" and "e' = e1"
        using t Inr Returns by (simp_all add: try_block_def)
      then show ?thesis
        using e Inr Returns Inl by (simp add: run_defs)
    next
      case g: (Inr stdout)
      show ?thesis
      proof (cases "drain_figures savefig e1")
        case (Inl message)
        then have "r = Failure message" and "e' = e1"
          using t Inr Returns g by (simp_all add: try_block_def)
        then show ?thesis
          using e Inr Returns g Inl by (simp add: run_defs)
      next
        case d: (Inr p)
        obtain figures e2 where p: "p = (figures, e2)"
          by (cases p)
        have "r = Success (or_completed stdout) figures" and "e' = e2"
          using t Inr Returns g d p by (simp_all add: try_block_def)
        then show ?thesis
          using e Inr Returns g d p by (simp add: run_defs)
      qed
    qed
  qed
qed

lemma runPython_hangs:
  assumes "pyodide w = Some e" and "preamble e = Inr e0"
    and "exec (currentCode w) e0 = Hangs"
  shows "runPython exec savefig w =
           w\<lparr>isRunning := True, output' := ''Running...'', plots := [], pyodide := Some e0,
             runs := runs w @ [\<lparr>pc = AwaitUser, code = currentCode w\<rparr>]\<rparr>"
  using assms by (simp add: run_defs)

lemma runPython_no_engine: "pyodide w = None \<Longrightarrow> runPython exec savefig w = w"
  by (simp add: runPython_def Let_def runPython_start_def settle_def)

section \<open>Reachable sessions are consistent\<close>

lemma consistent_init: "consistent init"
  by (simp add: consistent_def loader_inv_def single_flight_def init_def defaultCode_def)

lemma loader_inv_mount: "loader_inv w \<Longrightarrow> loader_inv (mount w)"
  by (cases "loader w") (simp_all add: loader_inv_def mount_def initPyodide_start_def)

lemma loader_inv_load: "loader_inv w \<Longrightarrow> loader_inv (initPyodide_resume r w)"
  by (cases "loader w"; cases r)
     (simp_all add: loader_inv_def initPyodide_resume_def initPyodide_catch_def)

lemma loader_inv_edit: "loader_inv w \<Longrightarrow> loader_inv (handleEditorChange v w)"
  by (simp add: loader_inv_def handleEditorChange_def split: option.splits)

lemma loader_inv_start: "loader_inv w \<Longrightarrow> loader_inv (runPython_start w)"
  by (simp add: loader_inv_def runPython_start_def split: option.splits)

lemma loader_inv_click: "loader_inv w \<Longrightarrow> loader_inv (click w)"
  by (simp add: click_def loader_inv_start)

lemma loader_inv_settle: "loader_inv w \<Longrightarrow> loader_inv (settle exec savefig n w)"
  by (cases "label (loader w)")
     (auto simp: loader_inv_def settle_def runPython_resume_def suspend_at_def
        runPython_catch_def runPython_finally_def
        split: option.splits run_pc.splits py_result.splits sum.splits prod.splits)

lemma single_flight_mount: "single_flight w \<Longrightarrow> single_flight (mount w)"
  by (cases "loader w") (simp_all add: single_flight_def mount_def initPyodide_start_def)

lemma single_flight_load: "single_flight w \<Longrightarrow> single_flight (initPyodide_resume r w)"
  by (cases "loader w"; cases r)
     (simp_all add: single_flight_def initPyodide_resume_def initPyodide_catch_def)

lemma single_flight_edit: "single_flight w \<Longrightarrow> single_flight (handleEditorChange v w)"
  by (simp add: single_flight_def handleEditorChange_def split: option.splits)

lemma single_flight_click: "single_flight w \<Longrightarrow> single_flight (click w)"
  by (simp add: single_flight_def click_def runPython_start_def split: option.splits)

lemma single_flight_settle: "single_flight w \<Longrightarrow> single_flight (settle exec savefig n w)"
  by (cases "runs w")
     (auto simp: single_flight_def settle_def runPython_resume_def suspend_at_def
        runPython_catch_def runPython_finally_def
        split: option.splits run_pc.splits py_result.splits sum.splits prod.splits)

lemma code_mount: "currentCode (mount w) = currentCode w"
  by (cases "loader w") (simp_all add: mount_def initPyodide_start_def)

lemma code_load: "currentCode (initPyodide_resume r w) = currentCode w"
  by (cases "loader w"; cases r)
     (simp_all add: initPyodide_resume_def initPyodide_catch_def)

lemma code_click: "currentCode (click w) = currentCode w"
  by (simp add: click_def runPython_start_def split: option.splits)

lemma code_settle: "currentCode (settle exec savefig n w) = currentCode w"
  by (simp add: settle_def runPython_resume_def suspend_at_def
        runPython_catch_def runPython_finally_def
        split: option.splits run_pc.splits py_result.splits sum.splits prod.splits)

lemma code_edit: "currentCode w \<noteq> [] \<Longrightarrow> currentCode (handleEditorChange v w) \<noteq> []"
  by (simp add: handleEditorChange_def split: option.splits)

lemma consistent_step: "consistent w \<Longrightarrow> consistent (step exec savefig ev w)"
  by (cases ev)
     (simp_all add: step_def consistent_def
        loader_inv_mount loader_inv_load loader_inv_click loader_inv_edit loader_inv_settle
        single_flight_mount single_flight_load single_flight_click single_flight_edit
        single_flight_settle code_mount code_load code_click code_settle code_edit)

lemma consistent_steps: "consistent w \<Longrightarrow> consistent (steps exec savefig evs w)"
  by (induction evs arbitrary: w) (simp_all add: consistent_step)

lemma consistent_reachable: "consistent (steps exec savefig evs init)"
  by (simp add: consistent_steps consistent_init)

lemma steps_append: "steps exec savefig (xs @ ys) w = steps exec savefig ys (steps exec savefig xs w)"
  by (induction xs arbitrary: w) simp_all

lemmas sample_defs =
  sample_run_def load_ok_def submit_def init_def step_def mount_def initPyodide_start_def
  initPyodide_resume_def initPyodide_catch_def fresh_py_def configure_plotting_def
  handleEditorChange_def click_def runPython_start_def settle_def runPython_resume_def
  suspend_at_def redirect_stdout_def sample_exec_def py_write_def py_figure_def
  getvalue_def or_completed_def drain_figures_def runPython_finally_def runPython_catch_def
  sample_savefig_def preamble_def get_fignums_def py_figure_num_def next_num_def

section \<open>Single flight\<close>

lemma ready_facts:
  assumes "consistent w" and "phase w = Ready"
  shows "\<not> isLoading w" and "\<not> isRunning w" and "runs w = []" and "\<exists>e. pyodide w = Some e"
  using assms
  by (auto simp: consistent_def loader_inv_def single_flight_def phase_def
      split: option.splits if_splits)

lemma running_iff:
  assumes "consistent w"
  shows "phase w = Running \<longleftrightarrow> length (runs w) = 1"
proof (cases "pyodide w")
  case None
  with assms show ?thesis
    by (auto simp: consistent_def single_flight_def phase_def)
next
  case (Some e)
  with assms show ?thesis
    by (cases "runs w") (auto simp: consistent_def single_flight_def phase_def)
qed

lemma click_running: "isRunning w \<Longrightarrow> click w = w"
  by (simp add: click_def)

lemma running_isRunning: "phase w = Running \<Longrightarrow> isRunning w"
  by (simp add: phase_def split: option.splits if_splits)

lemma submit_eq:
  assumes "consistent w" and "phase w = Ready" and "s \<noteq> []"
  shows "steps exec savefig (submit s) w = runPython exec savefig (w\<lparr>currentCode := s\<rparr>)"
  using ready_facts(1,2,3)[OF assms(1,2)] assms(3)
  by (simp add: submit_def step_def handleEditorChange_def click_def runPython_def Let_def)

text \<open>
  C4: in every session reached from the start at most one call of \<open>runPython\<close> is
  suspended; the phase is \<open>Running\<close> exactly when one is, and then a click on Run is
  ignored: the session is as it was, and so is everything that follows, the outcome of the
  run in flight included.
\<close>

theorem C4_single_flight:
  assumes "w = steps exec savefig evs init"
  shows "length (runs w) \<le> 1 \<and>
         (phase w = Running \<longleftrightarrow> length (runs w) = 1) \<and>
         (phase w = Running \<longrightarrow>
            step exec savefig Click w = w \<and>
            (\<forall>evs'. steps exec savefig (Click # evs') w = steps exec savefig evs' w))"
proof -
  have c: "consistent w"
    using assms by (simp add: consistent_reachable)
  then have "length (runs w) \<le> 1"
    by (simp add: consistent_def single_flight_def)
  moreover have "step exec savefig Click w = w" if "phase w = Running"
    using that by (simp add: step_def click_running running_isRunning)
  ultimately show ?thesis
    using running_iff[OF c] by simp
qed

theorem C4_single_flight_witness:
  "phase (sample_run (load_ok @ [Click, Settle 0])) = Running \<and>
   length (runs (sample_run (load_ok @ [Click, Settle 0]))) = 1 \<and>
   step sample_exec sample_savefig Click (sample_run (load_ok @ [Click, Settle 0])) =
     sample_run (load_ok @ [Click, Settle 0]) \<and>
   sample_run (load_ok @ [Click, Settle 0, Click, Settle 0]) =
     sample_run (load_ok @ [Click, Settle 0, Settle 0])"
proof -
  have w: "sample_run (load_ok @ [Click, Settle 0]) =
      steps sample_exec sample_savefig (load_ok @ [Click, Settle 0]) init"
    by (simp add: sample_run_def)
  have p: "phase (sample_run (load_ok @ [Click, Settle 0])) = Running"
    by (simp add: sample_defs phase_def)
  have "length (runs (sample_run (load_ok @ [Click, Settle 0]))) = 1 \<and>
      step sample_exec sample_savefig Click (sample_run (load_ok @ [Click, Settle 0])) =
        sample_run (load_ok @ [Click, Settle 0]) \<and>
      steps sample_exec sample_savefig [Click, Settle 0] (sample_run (load_ok @ [Click, Settle 0])) =
        steps sample_exec sample_savefig [Settle 0] (sample_run (load_ok @ [Click, Settle 0]))"
    using C4_single_flight[OF w] p by blast
  then show ?thesis
    using p by (simp add: sample_run_def steps_append)
qed

section \<open>Editing\<close>

lemma edit_falsy: "v = None \<or> v = Some [] \<Longrightarrow> handleEditorChange v w = w"
  by (auto simp: handleEditorChange_def)

text \<open>
  C10: when the editor reports an undefined or an empty text, \<open>handleEditorChange\<close>
  leaves the session as it is, the stored code included, and all that follows goes as if
  the report had not come. The call of \<open>runPython\<close> that the next click starts
  holds the code stored before; that code is never empty.
\<close>

theorem C10_empty_edit_keeps_code:
  assumes "v = None \<or> v = Some []"
  shows "step exec savefig (Edit v) w = w \<and>
         steps exec savefig (Edit v # evs) w = steps exec savefig evs w \<and>
         (consistent w \<and> phase w = Ready \<longrightarrow>
            runs (steps exec savefig [Edit v, Click] w) =
              [\<lparr>pc = AwaitPreamble, code = currentCode w\<rparr>]) \<and>
         currentCode (steps exec savefig evs' init) \<noteq> []"
proof -
  have same: "step exec savefig (Edit v) w = w"
    using assms by (simp add: step_def edit_falsy)
  have "runs (steps exec savefig [Edit v, Click] w) = [\<lparr>pc = AwaitPreamble, code = currentCode w\<rparr>]"
    if "consistent w" and "phase w = Ready"
    using ready_facts[OF that] same
    by (auto simp: step_def click_def runPython_start_def)
  moreover have "currentCode (steps exec savefig evs' init) \<noteq> []"
    using consistent_reachable[of exec savefig evs'] by (simp add: consistent_def)
  ultimately show ?thesis
    using same by simp
qed

theorem C10_empty_edit_keeps_code_witness:
  "phase (sample_run (load_ok @ [Edit (Some ''print(1+1)'')])) = Ready \<and>
   step sample_exec sample_savefig (Edit (Some []))
     (sample_run (load_ok @ [Edit (Some ''print(1+1)'')])) =
     sample_run (load_ok @ [Edit (Some ''print(1+1)'')]) \<and>
   steps sample_exec sample_savefig [Edit (Some []), Click, Settle 0, Settle 0]
     (sample_run (load_ok @ [Edit (Some ''print(1+1)'')])) =
     steps sample_exec sample_savefig [Click, Settle 0, Settle 0]
       (sample_run (load_ok @ [Edit (Some ''print(1+1)'')])) \<and>
   runs (steps sample_exec sample_savefig [Edit (Some []), Click]
     (sample_run (load_ok @ [Edit (Some ''print(1+1)'')]))) =
     [\<lparr>pc = AwaitPreamble, code = ''print(1+1)''\<rparr>]"
proof -
  let ?w = "sample_run (load_ok @ [Edit (Some ''print(1+1)'')])"
  have c: "consistent ?w"
    by (simp add: sample_run_def consistent_reachable)
  have p: "phase ?w = Ready" and s: "currentCode ?w = ''print(1+1)''"
    by (simp_all add: sample_defs phase_def)
  have v: "Some [] = None \<or> Some [] = Some ([] :: string)"
    by simp
  show ?thesis
    using C10_empty_edit_keeps_code[OF v, of sample_exec sample_savefig ?w
        "[Click, Settle 0, Settle 0]" "[]"] c p
    unfolding s by blast
qed

section \<open>The outcome of a run\<close>

lemma submit_ends:
  assumes "consistent w" and "phase w = Ready" and "pyodide w = Some e" and "s \<noteq> []"
    and "try_block exec savefig s e = Some (r, e')"
  shows "steps exec savefig (submit s) w =
           w\<lparr>currentCode := s, isRunning := False, output' := shown r, plots := images r,
             pyodide := Some e'\<rparr>"
proof -
  have "steps exec savefig (submit s) w = runPython exec savefig (w\<lparr>currentCode := s\<rparr>)"
    using assms(1,2,4) by (rule submit_eq)
  also have "\<dots> = w\<lparr>currentCode := s, isRunning := False, output' := shown r,
             plots := images r, pyodide := Some e'\<rparr>"
    using assms(3,5) by (intro runPython_ends) simp_all
  finally show ?thesis .
qed

lemma try_block_rejected:
  "import_fault e = Some m \<Longrightarrow> try_block exec savefig s e = Some (Failure m, e)"
  by (simp add: try_block_def preamble_def)

lemma try_block_raises:
  assumes "import_fault e = None" and "exec s (redirect_stdout e) = Raises m e1"
  shows "try_block exec savefig s e = Some (Failure m, e1)"
  using assms by (simp add: try_block_def preamble_def)

lemma try_block_succeeds:
  assumes "import_fault e = None" and "exec s (redirect_stdout e) = Returns e1"
    and "sys_stdout e1 = StringIO b" and "import_fault e1 = None" and "plt_fault e1 = None"
  shows "try_block exec savefig s e =
           Some (Success (or_completed b) (map (savefig \<circ> snd) (get_fignums e1)),
                 e1\<lparr>figs := []\<rparr>)"
  using assms by (simp add: try_block_def preamble_def getvalue_def drain_figures_ok)

lemma try_block_returns:
  assumes "import_fault e = None" and "exec s (redirect_stdout e) = Returns e1"
  shows "\<exists>r e'. try_block exec savefig s e = Some (r, e') \<and> sys_stdout e' = sys_stdout e1"
proof (cases "getvalue e1")
  case (Inl message)
  then show ?thesis
    using assms by (simp add: try_block_def preamble_def)
next
  case g: (Inr stdout)
  show ?thesis
  proof (cases "drain_figures savefig e1")
    case (Inl message)
    then show ?thesis
      using assms g by (simp add: try_block_def preamble_def)
  next
    case (Inr p)
    obtain figures e2 where p: "p = (figures, e2)"
      by (cases p)
    have "e2 = e1\<lparr>figs := []\<rparr>"
      using Inr p drain_figures_closes[of savefig e1 figures e2] by simp
    then show ?thesis
      using assms g Inr p by (simp add: try_block_def preamble_def)
  qed
qed

lemma ready_after:
  "phase (w\<lparr>currentCode := s, isRunning := False, output' := t, plots := ps,
            pyodide := Some e\<rparr>) = Ready"
  by (simp add: phase_def)




text \<open>
  C7, as amended: after a run that succeeds (each of the four awaited calls resolves),
  \<open>plots\<close> holds one image for each figure the engine held open when the source text
  returned, in the ascending order of the figures' numbers; two figures created with the
  numbers given by default on an engine with none open give two images in the order of
  creation, no figure open gives no image; and the output is never empty: the text written,
  or the placeholder when nothing was written.
\<close>

theorem C7_images_by_figure_number:
  assumes "w = steps exec savefig evs init" and "phase w = Ready" and "pyodide w = Some e"
    and "s \<noteq> []" and "import_fault e = None"
    and "exec s (redirect_stdout e) = Returns e1" and "sys_stdout e1 = StringIO b"
    and "import_fault e1 = None" and "plt_fault e1 = None"
  shows "plots (steps exec savefig (submit s) w) = map (savefig \<circ> snd) (sort_key fst (figs e1)) \<and>
         length (plots (steps exec savefig (submit s) w)) = length (figs e1) \<and>
         output' (steps exec savefig (submit s) w) =
           (if b = [] then ''Execution completed'' else b) \<and>
         output' (steps exec savefig (submit s) w) \<noteq> [] \<and>
         (figs e1 = [] \<longrightarrow> plots (steps exec savefig (submit s) w) = []) \<and>
         (figs e0 = [] \<and> e1 = py_figure f2 (py_figure f1 e0) \<longrightarrow>
            plots (steps exec savefig (submit s) w) = [savefig f1, savefig f2])"
proof -
  have c: "consistent w"
    using assms(1) by (simp add: consistent_reachable)
  have "try_block exec savefig s e =
      Some (Success (or_completed b) (map (savefig \<circ> snd) (get_fignums e1)), e1\<lparr>figs := []\<rparr>)"
    using assms(5-9) by (rule try_block_succeeds)
  then have "steps exec savefig (submit s) w =
      w\<lparr>currentCode := s, isRunning := False,
        output' := shown (Success (or_completed b) (map (savefig \<circ> snd) (get_fignums e1))),
        plots := images (Success (or_completed b) (map (savefig \<circ> snd) (get_fignums e1))),
        pyodide := Some (e1\<lparr>figs := []\<rparr>)\<rparr>"
    using c assms(2,3,4) by (intro submit_ends) simp_all
  then have o: "output' (steps exec savefig (submit s) w) = or_completed b"
    and p: "plots (steps exec savefig (submit s) w) = map (savefig \<circ> snd) (sort_key fst (figs e1))"
    by (simp_all add: get_fignums_def)
  have "map (savefig \<circ> snd) (sort_key fst (figs e1)) = [savefig f1, savefig f2]"
    if "figs e0 = []" and "e1 = py_figure f2 (py_figure f1 e0)"
    using that by (simp add: py_figure_def next_num_def)
  then show ?thesis
    using o p by (simp add: or_completed_def)
qed

theorem C7_images_by_figure_number_witness:
  "phase (sample_run load_ok) = Ready \<and>
   plots (sample_run (load_ok @ submit ''plt.figure('A'); plt.figure('B')'')) =
     [''png:A'', ''png:B''] \<and>
   output' (sample_run (load_ok @ submit ''plt.figure('A'); plt.figure('B')'')) =
     ''Execution completed'' \<and>
   plots (sample_run (load_ok @ submit ''pass'')) = [] \<and>
   output' (sample_run (load_ok @ submit ''pass'')) = ''Execution completed''"
proof -
  let ?e = "configure_plotting fresh_py :: string py"
  have w: "sample_run load_ok = steps sample_exec sample_savefig load_ok init"
    by (simp add: sample_run_def)
  have p: "phase (sample_run load_ok) = Ready"
    and e: "pyodide (sample_run load_ok) = Some ?e"
    by (simp_all add: sample_defs phase_def)
  have i: "import_fault ?e = None"
    by (simp add: fresh_py_def configure_plotting_def)
  have n2: "''plt.figure('A'); plt.figure('B')'' \<noteq> []" and n0: "''pass'' \<noteq> []"
    by simp_all
  have x2: "sample_exec ''plt.figure('A'); plt.figure('B')'' (redirect_stdout ?e) =
      Returns (py_figure ''B'' (py_figure ''A'' (redirect_stdout ?e)))"
    and x0: "sample_exec ''pass'' (redirect_stdout ?e) = Returns (redirect_stdout ?e)"
    by (simp_all add: sample_exec_def)
  have b2: "sys_stdout (py_figure ''B'' (py_figure ''A'' (redirect_stdout ?e))) = StringIO []"
    and i2: "import_fault (py_figure ''B'' (py_figure ''A'' (redirect_stdout ?e))) = None"
    and t2: "plt_fault (py_figure ''B'' (py_figure ''A'' (redirect_stdout ?e))) = None"
    and b0: "sys_stdout (redirect_stdout ?e) = StringIO []"
    and i0: "import_fault (redirect_stdout ?e) = None"
    and t0: "plt_fault (redirect_stdout ?e) = None"
    and f0: "figs (redirect_stdout ?e) = []"
    by (simp_all add: py_figure_def redirect_stdout_def fresh_py_def configure_plotting_def)
  note t2' = C7_images_by_figure_number[OF w p e n2 i x2 b2 i2 t2,
      of "redirect_stdout ?e" "''B''" "''A''"]
  note t0' = C7_images_by_figure_number[OF w p e n0 i x0 b0 i0 t0]
  have two: "plots (steps sample_exec sample_savefig (submit ''plt.figure('A'); plt.figure('B')'')
        (sample_run load_ok)) = [sample_savefig ''A'', sample_savefig ''B'']"
    using t2' f0 by blast
  have two': "output' (steps sample_exec sample_savefig (submit ''plt.figure('A'); plt.figure('B')'')
        (sample_run load_ok)) = (if ([] :: string) = [] then ''Execution completed'' else [])"
    using t2' by blast
  have none: "plots (steps sample_exec sample_savefig (submit ''pass'') (sample_run load_ok)) = []"
    using t0' f0 by blast
  have none': "output' (steps sample_exec sample_savefig (submit ''pass'') (sample_run load_ok)) =
        (if ([] :: string) = [] then ''Execution completed'' else [])"
    using t0' by blast
  show ?thesis
    using p two two' none none' by (simp add: sample_run_def steps_append sample_savefig_def)
qed

text \<open>
  C7 as stated fails: figure 5 created before figure 2 comes after it in the images; and a
  run that creates no figure, after a run that opened one and raised, has an image.
\<close>

theorem C7_creation_order_counterexample:
  "pyodide (sample_run (load_ok @
      [Edit (Some ''plt.figure(5); plt.figure(2)''), Click, Settle 0, Settle 0, Settle 0])) =
     Some \<lparr>sys_stdout = StringIO [], figs = [(5, ''Figure 5''), (2, ''Figure 2'')],
           import_fault = None, plt_fault = None\<rparr> \<and>
   plots (sample_run (load_ok @ submit ''plt.figure(5); plt.figure(2)'')) =
     [''png:Figure 2'', ''png:Figure 5''] \<and>
   output' (sample_run (load_ok @ submit ''plt.figure('A'); raise ValueError('x')'' @
     submit ''pass'')) = ''Execution completed'' \<and>
   plots (sample_run (load_ok @ submit ''plt.figure('A'); raise ValueError('x')'' @
     submit ''pass'')) = [''png:A'']"
  by (simp add: sample_defs)

text \<open>
  C2, as amended: when the source text is executed (the preamble has resolved) and raises,
  the error is caught; the result is the error's message after \<open>Error:\<close> and no images,
  and no more; the engine stays in the session, which is ready for the next run.
\<close>

theorem C2_error_message_only:
  assumes "w = steps exec savefig evs init" and "phase w = Ready" and "pyodide w = Some e"
    and "s \<noteq> []" and "import_fault e = None"
    and "exec s (redirect_stdout e) = Raises m e1"
  shows "output' (steps exec savefig (submit s) w) = ''Error: '' @ m \<and>
         plots (steps exec savefig (submit s) w) = [] \<and>
         pyodide (steps exec savefig (submit s) w) = Some e1 \<and>
         runs (steps exec savefig (submit s) w) = [] \<and>
         phase (steps exec savefig (submit s) w) = Ready"
proof -
  have c: "consistent w"
    using assms(1) by (simp add: consistent_reachable)
  have "try_block exec savefig s e = Some (Failure m, e1)"
    using assms(5,6) by (rule try_block_raises)
  then have "steps exec savefig (submit s) w =
      w\<lparr>currentCode := s, isRunning := False, output' := shown (Failure m),
        plots := images (Failure m), pyodide := Some e1\<rparr>"
    using c assms(2,3,4) by (intro submit_ends) simp_all
  then show ?thesis
    using ready_facts(3)[OF c assms(2)] by (simp add: phase_def)
qed

theorem C2_error_message_only_witness:
  "phase (sample_run load_ok) = Ready \<and>
   output' (sample_run (load_ok @ submit ''raise ValueError('x')'')) = ''Error: ValueError: x'' \<and>
   plots (sample_run (load_ok @ submit ''raise ValueError('x')'')) = [] \<and>
   phase (sample_run (load_ok @ submit ''raise ValueError('x')'')) = Ready"
proof -
  let ?e = "configure_plotting fresh_py :: string py"
  have w: "sample_run load_ok = steps sample_exec sample_savefig load_ok init"
    by (simp add: sample_run_def)
  have p: "phase (sample_run load_ok) = Ready"
    and e: "pyodide (sample_run load_ok) = Some ?e"
    by (simp_all add: sample_defs phase_def)
  have i: "import_fault ?e = None"
    by (simp add: fresh_py_def configure_plotting_def)
  have x: "sample_exec ''raise ValueError('x')'' (redirect_stdout ?e) =
      Raises ''ValueError: x'' (redirect_stdout ?e)"
    by (simp add: sample_exec_def)
  have n: "''raise ValueError('x')'' \<noteq> []"
    by simp
  show ?thesis
    using p C2_error_message_only[OF w p e n i x] by (simp add: sample_run_def steps_append)
qed

text \<open>
  C2 as stated fails: the text \<open>hi\<close> written before the error is in the engine's buffer
  and not in the result.
\<close>

theorem C2_partial_stdout_counterexample:
  "pyodide (sample_run (load_ok @ submit ''print('hi'); raise ValueError('x')'')) =
     Some \<lparr>sys_stdout = StringIO ''hi\<newline>'', figs = [], import_fault = None,
           plt_fault = None\<rparr> \<and>
   output' (sample_run (load_ok @ submit ''print('hi'); raise ValueError('x')'')) =
     ''Error: ValueError: x'' \<and>
   plots (sample_run (load_ok @ submit ''print('hi'); raise ValueError('x')'')) = [] \<and>
   CHR ''h'' \<notin> set (output' (sample_run (load_ok @ submit ''print('hi'); raise ValueError('x')'')))"
  by (simp add: sample_defs)

section \<open>What a run leaves in the engine\<close>

text \<open>
  C1, as amended: \<open>runPython\<close> never takes the redirection away. Every run whose source
  text returns or raises ends, and at its end, on each exit path, \<open>sys.stdout\<close> is bound
  to what it was bound to when the source text finished; a run whose preamble is rejected
  ends with the engine as it was. A run that succeeds leaves no figure open, so that a next
  source text that opens no figure and succeeds gives no image.
\<close>

theorem C1_redirection_stays:
  assumes "w = steps exec savefig evs init" and "phase w = Ready" and "pyodide w = Some e"
    and "s1 \<noteq> []"
  shows "(import_fault e = Some m0 \<longrightarrow>
            runs (steps exec savefig (submit s1) w) = [] \<and>
            pyodide (steps exec savefig (submit s1) w) = Some e) \<and>
         (import_fault e = None \<and> exec s1 (redirect_stdout e) = Raises m e1 \<longrightarrow>
            runs (steps exec savefig (submit s1) w) = [] \<and>
            (\<exists>e'. pyodide (steps exec savefig (submit s1) w) = Some e' \<and>
                  sys_stdout e' = sys_stdout e1)) \<and>
         (import_fault e = None \<and> exec s1 (redirect_stdout e) = Returns e2 \<longrightarrow>
            runs (steps exec savefig (submit s1) w) = [] \<and>
            (\<exists>e'. pyodide (steps exec savefig (submit s1) w) = Some e' \<and>
                  sys_stdout e' = sys_stdout e2)) \<and>
         (import_fault e = None \<and> exec s1 (redirect_stdout e) = Returns e2 \<and>
          sys_stdout e2 = StringIO b2 \<and> import_fault e2 = None \<and> plt_fault e2 = None \<longrightarrow>
            pyodide (steps exec savefig (submit s1) w) = Some (e2\<lparr>figs := []\<rparr>) \<and>
            (s2 \<noteq> [] \<and> exec s2 (redirect_stdout (e2\<lparr>figs := []\<rparr>)) = Returns e3 \<and>
             sys_stdout e3 = StringIO b3 \<and> import_fault e3 = None \<and> plt_fault e3 = None \<and>
             figs e3 = figs (e2\<lparr>figs := []\<rparr>) \<longrightarrow>
               plots (steps exec savefig (submit s1 @ submit s2) w) = []))"
proof -
  have c: "consistent w"
    using assms(1) by (simp add: consistent_reachable)
  have r: "runs w = []"
    using c assms(2) by (rule ready_facts(3))
  note ends = submit_ends[where exec = exec and savefig = savefig, OF c assms(2,3,4)]
  have rejected: "runs (steps exec savefig (submit s1) w) = [] \<and>
      pyodide (steps exec savefig (submit s1) w) = Some e"
    if "import_fault e = Some m0"
    using ends[OF try_block_rejected[where exec = exec and savefig = savefig, OF that]] r by simp
  have raised: "runs (steps exec savefig (submit s1) w) = [] \<and>
      (\<exists>e'. pyodide (steps exec savefig (submit s1) w) = Some e' \<and> sys_stdout e' = sys_stdout e1)"
    if "import_fault e = None" and "exec s1 (redirect_stdout e) = Raises m e1"
    using ends[OF try_block_raises[where exec = exec and savefig = savefig, OF that]] r by simp
  have returned: "runs (steps exec savefig (submit s1) w) = [] \<and>
      (\<exists>e'. pyodide (steps exec savefig (submit s1) w) = Some e' \<and> sys_stdout e' = sys_stdout e2)"
    if i: "import_fault e = None" and x: "exec s1 (redirect_stdout e) = Returns e2"
  proof -
    obtain r1 e' where t: "try_block exec savefig s1 e = Some (r1, e')"
      and o: "sys_stdout e' = sys_stdout e2"
      using try_block_returns[where exec = exec and savefig = savefig, OF i x] by blast
    show ?thesis
      using ends[OF t] o r by simp
  qed
  have succeeded: "pyodide (steps exec savefig (submit s1) w) = Some (e2\<lparr>figs := []\<rparr>) \<and>
      (s2 \<noteq> [] \<and> exec s2 (redirect_stdout (e2\<lparr>figs := []\<rparr>)) = Returns e3 \<and>
       sys_stdout e3 = StringIO b3 \<and> import_fault e3 = None \<and> plt_fault e3 = None \<and>
       figs e3 = figs (e2\<lparr>figs := []\<rparr>) \<longrightarrow>
         plots (steps exec savefig (submit s1 @ submit s2) w) = [])"
    if i: "import_fault e = None" and x: "exec s1 (redirect_stdout e) = Returns e2"
      and b: "sys_stdout e2 = StringIO b2" and i2: "import_fault e2 = None"
      and p2: "plt_fault e2 = None"
  proof -
    let ?w1 = "steps exec savefig (submit s1) w"
    have w1: "?w1 = w\<lparr>currentCode := s1, isRunning := False,
        output' := shown (Success (or_completed b2) (map (savefig \<circ> snd) (get_fignums e2))),
        plots := images (Success (or_completed b2) (map (savefig \<circ> snd) (get_fignums e2))),
        pyodide := Some (e2\<lparr>figs := []\<rparr>)\<rparr>"
      using ends[OF try_block_succeeds[where exec = exec and savefig = savefig, OF i x b i2 p2]] .
    have c1: "consistent ?w1"
      using c by (rule consistent_steps)
    have p1: "phase ?w1 = Ready" and e1: "pyodide ?w1 = Some (e2\<lparr>figs := []\<rparr>)"
      using w1 by (simp_all add: phase_def)
    have "plots (steps exec savefig (submit s2) ?w1) = []"
      if n: "s2 \<noteq> []" and x3: "exec s2 (redirect_stdout (e2\<lparr>figs := []\<rparr>)) = Returns e3"
        and b3: "sys_stdout e3 = StringIO b3" and i3: "import_fault e3 = None"
        and p3: "plt_fault e3 = None" and f3: "figs e3 = figs (e2\<lparr>figs := []\<rparr>)"
    proof -
      have "import_fault (e2\<lparr>figs := []\<rparr>) = None"
        using i2 by simp
      then have "try_block exec savefig s2 (e2\<lparr>figs := []\<rparr>) =
          Some (Success (or_completed b3) (map (savefig \<circ> snd) (get_fignums e3)),
                e3\<lparr>figs := []\<rparr>)"
        using x3 b3 i3 p3 by (intro try_block_succeeds)
      then show ?thesis
        using submit_ends[where exec = exec and savefig = savefig, OF c1 p1 e1 n] f3
        by (simp add: get_fignums_def)
    qed
    then show ?thesis
      using e1 by (simp add: steps_append)
  qed
  show ?thesis
    using rejected raised returned succeeded by blast
qed

theorem C1_redirection_stays_witness:
  "phase (sample_run load_ok) = Ready \<and>
   pyodide (sample_run (load_ok @ submit ''plt.figure('A')'')) =
     Some \<lparr>sys_stdout = StringIO [], figs = [], import_fault = None, plt_fault = None\<rparr> \<and>
   plots (sample_run (load_ok @ submit ''plt.figure('A')'')) = [''png:A''] \<and>
   plots (sample_run (load_ok @ submit ''plt.figure('A')'' @ submit ''print('ok')'')) = []"
proof -
  let ?e = "configure_plotting fresh_py :: string py"
  let ?e2 = "\<lparr>sys_stdout = StringIO [], figs = [(1, ''A'')], import_fault = None,
              plt_fault = None\<rparr> :: string py"
  let ?e3 = "\<lparr>sys_stdout = StringIO ''ok\<newline>'', figs = [], import_fault = None,
              plt_fault = None\<rparr> :: string py"
  have w: "sample_run load_ok = steps sample_exec sample_savefig load_ok init"
    by (simp add: sample_run_def)
  have p: "phase (sample_run load_ok) = Ready" and e: "pyodide (sample_run load_ok) = Some ?e"
    by (simp_all add: sample_defs phase_def)
  have i: "import_fault ?e = None"
    by (simp add: fresh_py_def configure_plotting_def)
  have n1: "''plt.figure('A')'' \<noteq> []" and n2: "''print('ok')'' \<noteq> []"
    by simp_all
  have r1: "sample_exec ''plt.figure('A')'' (redirect_stdout ?e) = Returns ?e2"
    by (simp add: sample_exec_def py_figure_def next_num_def redirect_stdout_def fresh_py_def
        configure_plotting_def)
  have r2: "sample_exec ''print('ok')'' (redirect_stdout (?e2\<lparr>figs := []\<rparr>)) = Returns ?e3"
    by (simp add: sample_exec_def py_write_def redirect_stdout_def)
  have "pyodide (steps sample_exec sample_savefig (submit ''plt.figure('A')'') (sample_run load_ok)) =
      Some (?e2\<lparr>figs := []\<rparr>) \<and>
      plots (steps sample_exec sample_savefig (submit ''plt.figure('A')'' @ submit ''print('ok')'')
        (sample_run load_ok)) = []"
    using C1_redirection_stays[OF w p e n1, where ?e2.0 = ?e2 and ?b2.0 = "[]"
        and ?s2.0 = "''print('ok')''" and ?e3.0 = ?e3 and ?b3.0 = "''ok\<newline>''"]
      i r1 r2
    by simp
  moreover have "plots (sample_run (load_ok @ submit ''plt.figure('A')'')) = [''png:A'']"
    by (simp add: sample_defs)
  ultimately show ?thesis
    using p by (simp add: sample_run_def steps_append)
qed

text \<open>
  C1 as stated fails: after a run that succeeded \<open>sys.stdout\<close> is still the buffer
  of that run; after a run that opened a figure and raised, the figure is still open, and
  the images of the next run, which opens none, are not empty.
\<close>

theorem C1_leak_counterexample:
  "pyodide (sample_run (load_ok @ submit ''print(1+1)'')) =
     Some \<lparr>sys_stdout = StringIO ''2\<newline>'', figs = [], import_fault = None,
           plt_fault = None\<rparr> \<and>
   pyodide (sample_run (load_ok @ submit ''plt.figure('A'); raise ValueError('x')'')) =
     Some \<lparr>sys_stdout = StringIO [], figs = [(1, ''A'')], import_fault = None,
           plt_fault = None\<rparr> \<and>
   plots (sample_run (load_ok @ submit ''plt.figure('A'); raise ValueError('x')'' @
            submit ''print('ok')'')) = [''png:A'']"
  by (simp add: sample_defs)

section \<open>The phases\<close>

lemma failed_iff:
  "phase w = Failed m \<longleftrightarrow>
     pyodide w = None \<and> status w \<noteq> ''Initializing...'' \<and> take 7 (status w) = ''Error: '' \<and>
     m = drop 7 (status w)"
  by (auto simp: phase_def split: option.splits)

lemma loading_iff:
  "(\<exists>l. phase w = Loading l) \<longleftrightarrow>
     pyodide w = None \<and> status w \<noteq> ''Initializing...'' \<and> take 7 (status w) \<noteq> ''Error: ''"
  by (auto simp: phase_def split: option.splits)

lemma engine_settle:
  "pyodide (settle exec savefig n w) = None \<longleftrightarrow> pyodide w = None"
  by (simp add: settle_def runPython_resume_def suspend_at_def
        runPython_catch_def runPython_finally_def
        split: option.splits run_pc.splits py_result.splits sum.splits prod.splits)

lemma status_settle: "status (settle exec savefig n w) = status w"
  by (simp add: settle_def runPython_resume_def suspend_at_def
        runPython_catch_def runPython_finally_def
        split: option.splits run_pc.splits py_result.splits sum.splits prod.splits)

lemma engine_click: "pyodide (click w) = pyodide w"
  by (simp add: click_def runPython_start_def split: option.splits)

lemma status_click: "status (click w) = status w"
  by (simp add: click_def runPython_start_def split: option.splits)

lemma engine_edit: "pyodide (handleEditorChange v w) = pyodide w"
  by (simp add: handleEditorChange_def split: option.splits)

lemma status_edit: "status (handleEditorChange v w) = status w"
  by (simp add: handleEditorChange_def split: option.splits)

lemma failed_from_mount:
  assumes "loader_inv w" and "phase (mount w) = Failed m"
  shows "phase w = Failed m"
  using assms
  by (cases "loader w") (simp_all add: mount_def initPyodide_start_def failed_iff)

lemma failed_from_load:
  assumes "loader_inv w" and "phase (initPyodide_resume r w) = Failed m"
  shows "phase w = Failed m \<or> (\<exists>l. phase w = Loading l)"
  using assms unfolding loading_iff
  by (cases "loader w"; cases r)
     (simp_all add: initPyodide_resume_def initPyodide_catch_def failed_iff loader_inv_def)

lemma failed_from:
  assumes "consistent w" and "phase (step exec savefig ev w) = Failed m"
  shows "phase w = Failed m \<or> (\<exists>l. phase w = Loading l)"
proof (cases ev)
  case Mount
  then show ?thesis
    using assms failed_from_mount[of w m] by (simp add: step_def consistent_def)
next
  case (LoadSettled r)
  then show ?thesis
    using assms failed_from_load[of w r m] by (simp add: step_def consistent_def)
next
  case Click
  then show ?thesis
    using assms(2) by (simp add: step_def failed_iff engine_click status_click)
next
  case (Edit v)
  then show ?thesis
    using assms(2) by (simp add: step_def failed_iff engine_edit status_edit)
next
  case (Settle n)
  then show ?thesis
    using assms(2) by (simp add: step_def failed_iff engine_settle status_settle)
qed

lemma loading_fails:
  assumes "loader_inv w" and "phase w = Loading l"
  shows "initPyodide_resume (Some m) w = w\<lparr>status := ''Error: '' @ m, loader := LoadDone\<rparr>"
    and "pyodide w = None"
proof -
  show n: "pyodide w = None"
    using assms(2) by (simp add: phase_def split: option.splits if_splits)
  have "status w \<noteq> ''Initializing...''" and "take 7 (status w) \<noteq> ''Error: ''"
    using assms(2) by (auto simp: phase_def n split: if_splits)
  then show "initPyodide_resume (Some m) w = w\<lparr>status := ''Error: '' @ m, loader := LoadDone\<rparr>"
    using assms(1) n
    by (cases "loader w")
       (simp_all add: initPyodide_resume_def initPyodide_catch_def loader_inv_def)
qed

lemma failed_facts:
  assumes "consistent w" and "phase w = Failed m"
  shows "pyodide w = None" and "isLoading w" and "runs w = []" and "loader w = LoadDone"
proof -
  have f: "pyodide w = None" "status w \<noteq> ''Initializing...''" "take 7 (status w) = ''Error: ''"
    using assms(2) by (simp_all add: failed_iff)
  show "pyodide w = None" by (rule f(1))
  show "isLoading w"
    using assms(1) f(1) by (simp add: consistent_def loader_inv_def)
  show "runs w = []"
    using assms(1) f(1) by (auto simp: consistent_def single_flight_def)
  show "loader w = LoadDone"
    using assms(1) f by (cases "loader w") (auto simp: consistent_def loader_inv_def)
qed

lemma failed_step:
  assumes "consistent w" and "phase w = Failed m"
  shows "step exec savefig ev w = w\<lparr>currentCode := currentCode (step exec savefig ev w)\<rparr>"
  using failed_facts[OF assms]
  by (cases ev)
     (simp_all add: step_def mount_def initPyodide_resume_def click_def settle_def
        handleEditorChange_def split: option.splits)

lemma failed_step_fields:
  assumes "consistent w" and "phase w = Failed m"
  shows "phase (step exec savefig ev w) = Failed m"
    and "output' (step exec savefig ev w) = output' w"
    and "plots (step exec savefig ev w) = plots w"
proof -
  let ?w = "w\<lparr>currentCode := currentCode (step exec savefig ev w)\<rparr>"
  have s: "step exec savefig ev w = ?w"
    using assms by (rule failed_step)
  have "phase ?w = Failed m" and "output' ?w = output' w" and "plots ?w = plots w"
    using assms(2) by (simp_all add: failed_iff)
  then show "phase (step exec savefig ev w) = Failed m"
    and "output' (step exec savefig ev w) = output' w"
    and "plots (step exec savefig ev w) = plots w"
    using s by simp_all
qed

lemma failed_steps:
  assumes "consistent w" and "phase w = Failed m"
  shows "phase (steps exec savefig evs w) = Failed m \<and>
         output' (steps exec savefig evs w) = output' w \<and>
         plots (steps exec savefig evs w) = plots w"
  using assms
proof (induction evs arbitrary: w)
  case Nil
  then show ?case by simp
next
  case (Cons ev evs)
  have "consistent (step exec savefig ev w)"
    using Cons.prems(1) by (rule consistent_step)
  then show ?case
    using Cons.IH[of "step exec savefig ev w"] failed_step_fields[OF Cons.prems, of exec savefig ev]
    by simp
qed

text \<open>
  C5: when one of the three awaited steps of loading fails, the phase is \<open>Failed\<close> with
  the error's message and the session holds no engine; whatever comes after, the phase stays
  \<open>Failed\<close> with that message, \<open>initPyodide\<close> is not run again, no call of
  \<open>runPython\<close> is ever suspended, the result shown stays the one before, and a
  click on Run changes nothing, nor does a call of \<open>runPython\<close>, which returns at
  line 64.
\<close>

theorem C5_load_failure_terminal:
  assumes "w = steps exec savefig evs init" and "phase w = Loading l"
  shows "phase (step exec savefig (LoadSettled (Some m)) w) = Failed m \<and>
         pyodide (step exec savefig (LoadSettled (Some m)) w) = None \<and>
         phase (steps exec savefig (LoadSettled (Some m) # evs') w) = Failed m \<and>
         pyodide (steps exec savefig (LoadSettled (Some m) # evs') w) = None \<and>
         loader (steps exec savefig (LoadSettled (Some m) # evs') w) = LoadDone \<and>
         runs (steps exec savefig (LoadSettled (Some m) # evs') w) = [] \<and>
         output' (steps exec savefig (LoadSettled (Some m) # evs') w) = output' w \<and>
         plots (steps exec savefig (LoadSettled (Some m) # evs') w) = plots w \<and>
         step exec savefig Click (steps exec savefig (LoadSettled (Some m) # evs') w) =
           steps exec savefig (LoadSettled (Some m) # evs') w \<and>
         runPython exec savefig (steps exec savefig (LoadSettled (Some m) # evs') w) =
           steps exec savefig (LoadSettled (Some m) # evs') w"
proof -
  let ?w1 = "step exec savefig (LoadSettled (Some m)) w"
  let ?w2 = "steps exec savefig evs' ?w1"
  have c: "consistent w"
    using assms(1) by (simp add: consistent_reachable)
  then have li: "loader_inv w"
    by (simp add: consistent_def)
  have w1: "?w1 = w\<lparr>status := ''Error: '' @ m, loader := LoadDone\<rparr>"
    using loading_fails(1)[OF li assms(2)] by (simp add: step_def)
  have f1: "phase ?w1 = Failed m"
    using loading_fails(2)[OF li assms(2)] by (simp add: w1 failed_iff)
  have c1: "consistent ?w1"
    using c by (rule consistent_step)
  have c2: "consistent ?w2"
    using c1 by (rule consistent_steps)
  have f2: "phase ?w2 = Failed m" and o2: "output' ?w2 = output' w" and p2: "plots ?w2 = plots w"
    using failed_steps[OF c1 f1, of exec savefig evs'] by (simp_all add: w1)
  have "step exec savefig Click ?w2 = ?w2"
    using failed_facts(2)[OF c2 f2] by (simp add: step_def click_def)
  moreover have "runPython exec savefig ?w2 = ?w2"
    using failed_facts(1)[OF c2 f2] by (rule runPython_no_engine)
  ultimately show ?thesis
    using f1 f2 o2 p2 failed_facts(1)[OF c1 f1] failed_facts(1,3,4)[OF c2 f2] by simp
qed

theorem C5_load_failure_terminal_witness:
  "phase (sample_run [Mount, LoadSettled None]) = Loading ''Loading NumPy and Matplotlib...'' \<and>
   phase (sample_run [Mount, LoadSettled None, LoadSettled (Some ''network'')]) =
     Failed ''network'' \<and>
   phase (sample_run [Mount, LoadSettled None, LoadSettled (Some ''network''),
            Click, Edit (Some ''print(1+1)''), Click, Settle 0, Mount, LoadSettled None]) =
     Failed ''network'' \<and>
   runs (sample_run [Mount, LoadSettled None, LoadSettled (Some ''network''),
            Click, Edit (Some ''print(1+1)''), Click, Settle 0, Mount, LoadSettled None]) = []"
proof -
  have w: "sample_run [Mount, LoadSettled None] =
      steps sample_exec sample_savefig [Mount, LoadSettled None] init"
    by (simp add: sample_run_def)
  have p: "phase (sample_run [Mount, LoadSettled None]) = Loading ''Loading NumPy and Matplotlib...''"
    by (simp add: sample_defs phase_def)
  show ?thesis
    using p C5_load_failure_terminal[OF w p, of "''network''"
        "[Click, Edit (Some ''print(1+1)''), Click, Settle 0, Mount, LoadSettled None]"]
    by (simp add: sample_run_def)
qed

text \<open>
  C3, as amended: a run that fails, whichever of the four awaited calls is rejected, takes
  the session from \<open>Ready\<close> to \<open>Running\<close> and back to \<open>Ready\<close>, with the
  error as the output and no images. A next submit is then accepted, and it ends with the
  outcome of its own four calls on the engine as the failed run left it, with the phase
  \<open>Ready\<close> again. A step that ends in \<open>Failed\<close> starts in \<open>Loading\<close>, or
  in \<open>Failed\<close> already.
\<close>

theorem C3_run_failure_returns_to_Ready:
  assumes "w = steps exec savefig evs init"
  shows "(phase w = Ready \<and> pyodide w = Some e \<and> s \<noteq> [] \<and>
          try_block exec savefig s e = Some (Failure m, e1) \<longrightarrow>
            phase (steps exec savefig [Edit (Some s), Click] w) = Running \<and>
            phase (steps exec savefig (submit s) w) = Ready \<and>
            output' (steps exec savefig (submit s) w) = ''Error: '' @ m \<and>
            plots (steps exec savefig (submit s) w) = [] \<and>
            pyodide (steps exec savefig (submit s) w) = Some e1 \<and>
            (s2 \<noteq> [] \<longrightarrow>
               phase (steps exec savefig (submit s @ [Edit (Some s2), Click]) w) = Running \<and>
               (try_block exec savefig s2 e1 = Some (r2, e2) \<longrightarrow>
                  phase (steps exec savefig (submit s @ submit s2) w) = Ready \<and>
                  output' (steps exec savefig (submit s @ submit s2) w) = shown r2 \<and>
                  plots (steps exec savefig (submit s @ submit s2) w) = images r2))) \<and>
         (phase (step exec savefig ev w) = Failed m' \<longrightarrow>
            phase w = Failed m' \<or> (\<exists>l. phase w = Loading l))"
proof -
  have c: "consistent w"
    using assms by (simp add: consistent_reachable)
  have accepted: "phase (steps exec savefig [Edit (Some t), Click] v) = Running"
    if cv: "consistent v" and pv: "phase v = Ready" and t: "t \<noteq> []"
    for v :: "'a world" and t
  proof -
    obtain e' where "pyodide v = Some e'"
      using ready_facts(4)[OF cv pv] by blast
    then show ?thesis
      using ready_facts(1,2)[OF cv pv] t
      by (simp add: step_def handleEditorChange_def click_def runPython_start_def phase_def)
  qed
  have run: "phase (steps exec savefig [Edit (Some s), Click] w) = Running \<and>
      phase (steps exec savefig (submit s) w) = Ready \<and>
      output' (steps exec savefig (submit s) w) = ''Error: '' @ m \<and>
      plots (steps exec savefig (submit s) w) = [] \<and>
      pyodide (steps exec savefig (submit s) w) = Some e1 \<and>
      (s2 \<noteq> [] \<longrightarrow>
         phase (steps exec savefig (submit s @ [Edit (Some s2), Click]) w) = Running \<and>
         (try_block exec savefig s2 e1 = Some (r2, e2) \<longrightarrow>
            phase (steps exec savefig (submit s @ submit s2) w) = Ready \<and>
            output' (steps exec savefig (submit s @ submit s2) w) = shown r2 \<and>
            plots (steps exec savefig (submit s @ submit s2) w) = images r2))"
    if r: "phase w = Ready" and e: "pyodide w = Some e" and s: "s \<noteq> []"
      and x: "try_block exec savefig s e = Some (Failure m, e1)"
  proof -
    let ?w1 = "steps exec savefig (submit s) w"
    have w1: "?w1 = w\<lparr>currentCode := s, isRunning := False, output' := shown (Failure m),
             plots := images (Failure m), pyodide := Some e1\<rparr>"
      using c r e s x by (rule submit_ends)
    have c1: "consistent ?w1"
      using c by (rule consistent_steps)
    have p1: "phase ?w1 = Ready" and e1: "pyodide ?w1 = Some e1"
      and o1: "output' ?w1 = ''Error: '' @ m" and i1: "plots ?w1 = []"
      using w1 by (simp_all add: phase_def)
    have next_run: "phase (steps exec savefig (submit s2) ?w1) = Ready \<and>
          output' (steps exec savefig (submit s2) ?w1) = shown r2 \<and>
          plots (steps exec savefig (submit s2) ?w1) = images r2"
      if "s2 \<noteq> []" and "try_block exec savefig s2 e1 = Some (r2, e2)"
      using submit_ends[where exec = exec and savefig = savefig, OF c1 p1 e1 that]
      by (simp add: phase_def)
    show ?thesis
      using accepted[OF c r s] accepted[OF c1 p1, of s2] p1 o1 i1 e1 next_run
      by (simp add: steps_append)
  qed
  have "phase w = Failed m' \<or> (\<exists>l. phase w = Loading l)"
    if "phase (step exec savefig ev w) = Failed m'"
    using c that by (rule failed_from)
  then show ?thesis
    using run by blast
qed

theorem C3_run_failure_returns_to_Ready_witness:
  "phase (sample_run load_ok) = Ready \<and>
   phase (sample_run (load_ok @ submit ''raise ValueError('x')'')) = Ready \<and>
   output' (sample_run (load_ok @ submit ''raise ValueError('x')'')) = ''Error: ValueError: x'' \<and>
   phase (sample_run (load_ok @ submit ''raise ValueError('x')'' @
     [Edit (Some ''print(1+1)''), Click])) = Running \<and>
   output' (sample_run (load_ok @ submit ''raise ValueError('x')'' @ submit ''print(1+1)'')) =
     ''2\<newline>'' \<and>
   phase (sample_run [Mount, LoadSettled (Some ''network'')]) = Failed ''network'' \<and>
   phase (sample_run [Mount]) = Loading ''Loading Python environment...''"
proof -
  let ?e = "configure_plotting fresh_py :: string py"
  let ?e2 = "\<lparr>sys_stdout = StringIO ''2\<newline>'', figs = [], import_fault = None,
              plt_fault = None\<rparr> :: string py"
  have w: "sample_run load_ok = steps sample_exec sample_savefig load_ok init"
    and w': "sample_run [Mount] = steps sample_exec sample_savefig [Mount] init"
    by (simp_all add: sample_run_def)
  have p: "phase (sample_run load_ok) = Ready" and e: "pyodide (sample_run load_ok) = Some ?e"
    by (simp_all add: sample_defs phase_def)
  have r1: "try_block sample_exec sample_savefig ''raise ValueError('x')'' ?e =
      Some (Failure ''ValueError: x'', redirect_stdout ?e)"
    by (simp add: try_block_def preamble_def sample_exec_def fresh_py_def configure_plotting_def)
  have r2: "try_block sample_exec sample_savefig ''print(1+1)'' (redirect_stdout ?e) =
      Some (Success ''2\<newline>'' [], ?e2)"
    by (simp add: try_block_def preamble_def sample_exec_def py_write_def redirect_stdout_def
        fresh_py_def configure_plotting_def getvalue_def drain_figures_def get_fignums_def
        or_completed_def)
  have f: "phase (step sample_exec sample_savefig (LoadSettled (Some ''network'')) (sample_run [Mount])) =
      Failed ''network''"
    by (simp add: sample_defs phase_def)
  have "phase (sample_run [Mount]) = Failed ''network'' \<or>
        (\<exists>l. phase (sample_run [Mount]) = Loading l)"
    using C3_run_failure_returns_to_Ready[where ev = "LoadSettled (Some ''network'')"
        and m' = "''network''", OF w'] f
    by simp
  moreover have "phase (sample_run [Mount]) = Loading ''Loading Python environment...''"
    by (simp add: sample_defs phase_def)
  moreover have "phase (steps sample_exec sample_savefig (submit ''raise ValueError('x')'')
        (sample_run load_ok)) = Ready \<and>
      output' (steps sample_exec sample_savefig (submit ''raise ValueError('x')'')
        (sample_run load_ok)) = ''Error: ValueError: x'' \<and>
      phase (steps sample_exec sample_savefig
        (submit ''raise ValueError('x')'' @ [Edit (Some ''print(1+1)''), Click])
        (sample_run load_ok)) = Running \<and>
      output' (steps sample_exec sample_savefig
        (submit ''raise ValueError('x')'' @ submit ''print(1+1)'') (sample_run load_ok)) =
        ''2\<newline>''"
    using C3_run_failure_returns_to_Ready[OF w, of ?e "''raise ValueError('x')''"
        "''ValueError: x''" "redirect_stdout ?e" "''print(1+1)''"
        "Success ''2\<newline>'' []" ?e2]
      p e r1 r2
    by simp
  ultimately show ?thesis
    using p f by (simp add: sample_run_def steps_append step_def)
qed

text \<open>
  C3 as stated fails: after a run that rebound \<open>plt\<close> and raised, the session is
  \<open>Ready\<close>, and the source text \<open>print(1+1)\<close> submitted next ends in an error.
\<close>

theorem C3_next_submit_counterexample:
  "phase (sample_run (load_ok @ submit ''plt = None; raise ValueError('x')'')) = Ready \<and>
   output' (sample_run (load_ok @ submit ''plt = None; raise ValueError('x')'')) =
     ''Error: ValueError: x'' \<and>
   phase (sample_run (load_ok @ submit ''plt = None; raise ValueError('x')'' @
     submit ''print(1+1)'')) = Ready \<and>
   output' (sample_run (load_ok @ submit ''plt = None; raise ValueError('x')'' @
     submit ''print(1+1)'')) = ''Error: AttributeError: no attribute get_fignums'' \<and>
   plots (sample_run (load_ok @ submit ''plt = None; raise ValueError('x')'' @
     submit ''print(1+1)'')) = []"
  by (simp add: sample_defs phase_def)

section \<open>What the page shows\<close>

lemma display_init: "display_inv init"
  by (simp add: display_inv_def init_def)

lemma display_mount: "display_inv w \<Longrightarrow> display_inv (mount w)"
  by (cases "loader w")
     (simp_all add: display_inv_def drained_text_def mount_def initPyodide_start_def)

lemma display_load:
  assumes "loader_inv w" and "single_flight w" and "display_inv w"
  shows "display_inv (initPyodide_resume r w)"
proof (cases "runs w")
  case Nil
  then show ?thesis
    by (cases "loader w"; cases r)
       (simp_all add: display_inv_def initPyodide_resume_def initPyodide_catch_def)
next
  case (Cons t ts)
  then have "pyodide w \<noteq> None"
    using assms(2) by (simp add: single_flight_def)
  then have "loader w = LoadDone"
    using assms(1) by (cases "loader w") (simp_all add: loader_inv_def)
  then show ?thesis
    using assms(3) by (simp add: initPyodide_resume_def)
qed

lemma display_edit: "display_inv w \<Longrightarrow> display_inv (handleEditorChange v w)"
  by (cases v) (simp_all add: display_inv_def drained_text_def handleEditorChange_def)

lemma display_click:
  assumes "single_flight w" and "display_inv w"
  shows "display_inv (click w)"
proof (cases "isLoading w \<or> isRunning w")
  case True
  then show ?thesis
    using assms(2) by (auto simp: click_def)
next
  case False
  then have "runs w = []"
    using assms(1) by (simp add: single_flight_def)
  then show ?thesis
    using False by (simp add: click_def runPython_start_def display_inv_def split: option.splits)
qed

lemma display_settle:
  assumes "single_flight w" and "display_inv w"
  shows "display_inv (settle exec savefig n w)"
proof (cases "runs w")
  case Nil
  then show ?thesis
    using assms(2) by (simp add: settle_def)
next
  case (Cons t ts)
  then have ts: "ts = []"
    using assms(1) by (simp add: single_flight_def)
  show ?thesis
  proof (cases n)
    case (Suc k)
    then show ?thesis
      using assms(2) Cons ts by (simp add: settle_def)
  next
    case 0
    obtain e where e: "pyodide w = Some e"
      using assms(1) Cons by (auto simp: single_flight_def)
    show ?thesis
      using assms(2) Cons ts 0 e
      by (cases "pc t")
         (auto simp: settle_def runPython_resume_def suspend_at_def display_inv_def
            drained_text_def runPython_catch_def runPython_finally_def
            getvalue_def split: py_result.splits stream.splits sum.splits prod.splits)
  qed
qed

lemma visible_step: "visible w \<Longrightarrow> visible (step exec savefig ev w)"
  unfolding visible_def
  by (cases ev)
     (simp_all add: consistent_step, 
      simp_all add: step_def consistent_def display_mount display_load display_click
        display_edit display_settle)

lemma visible_reachable: "visible (steps exec savefig evs init)"
proof -
  have "visible w \<Longrightarrow> visible (steps exec savefig evs w)" for w :: "'a world"
    by (induction evs arbitrary: w) (simp_all add: visible_step)
  then show ?thesis
    by (simp add: visible_def consistent_init display_init)
qed

lemma shown_mount:
  "runs (mount w) = runs w" "output' (mount w) = output' w" "plots (mount w) = plots w"
  by (cases "loader w"; simp add: mount_def initPyodide_start_def)+

lemma shown_load:
  "runs (initPyodide_resume r w) = runs w" "output' (initPyodide_resume r w) = output' w"
  "plots (initPyodide_resume r w) = plots w"
  by (cases "loader w"; cases r; simp add: initPyodide_resume_def initPyodide_catch_def)+

lemma shown_edit:
  "runs (handleEditorChange v w) = runs w" "output' (handleEditorChange v w) = output' w"
  "plots (handleEditorChange v w) = plots w"
  by (cases v; simp add: handleEditorChange_def)+

lemma start_display:
  assumes "runs w = []" and "runs (step exec savefig ev w) \<noteq> []"
  shows "output' (step exec savefig ev w) = ''Running...'' \<and> plots (step exec savefig ev w) = []"
proof (cases ev)
  case Click
  then show ?thesis
    using assms
    by (cases "pyodide w")
       (auto simp: step_def click_def runPython_start_def split: if_splits)
qed (use assms in \<open>simp_all add: step_def shown_mount shown_load shown_edit settle_def\<close>)

lemma idle_display:
  assumes "runs w = []" and "runs (step exec savefig ev w) = []"
  shows "output' (step exec savefig ev w) = output' w \<and> plots (step exec savefig ev w) = plots w"
proof (cases ev)
  case Click
  then show ?thesis
    using assms
    by (cases "pyodide w")
       (auto simp: step_def click_def runPython_start_def split: if_splits)
qed (use assms in \<open>simp_all add: step_def shown_mount shown_load shown_edit settle_def\<close>)

lemma end_display:
  assumes "visible w" and "runs w \<noteq> []" and "runs (step exec savefig ev w) = []"
  shows "(\<exists>message. output' (step exec savefig ev w) = ''Error: '' @ message \<and>
                    plots (step exec savefig ev w) = []) \<or>
         (\<exists>e b. pyodide w = Some e \<and> sys_stdout e = StringIO b \<and>
                output' (step exec savefig ev w) = or_completed b \<and>
                plots (step exec savefig ev w) = map (savefig \<circ> snd) (get_fignums e))"
proof (cases ev)
  case Click
  then show ?thesis
    using assms(2,3)
    by (cases "pyodide w")
       (auto simp: step_def click_def runPython_start_def split: if_splits)
next
  case (Settle n)
  obtain t where t: "runs w = [t]"
    using assms(1,2) by (cases "runs w") (auto simp: visible_def consistent_def single_flight_def)
  obtain e where e: "pyodide w = Some e"
    using assms(1) t by (auto simp: visible_def consistent_def single_flight_def)
  have n: "n = 0"
    using assms(3) t Settle by (cases n) (simp_all add: step_def settle_def)
  have d: "plots w = []" "pc t = AwaitDrain \<longrightarrow> drained_text w = Some (output' w)"
    using assms(1) t by (simp_all add: visible_def display_inv_def)
  show ?thesis
    using assms(3) Settle n t e d
    by (cases "pc t")
       (auto simp: step_def settle_def runPython_resume_def suspend_at_def
          runPython_catch_def runPython_finally_def
          getvalue_def drained_text_def
          dest: drain_figures_closes
          split: py_result.splits stream.splits sum.splits prod.splits)
qed (use assms in \<open>simp_all add: step_def shown_mount shown_load shown_edit\<close>)

lemma flight_display:
  assumes "visible w" and "runs w \<noteq> []"
  shows "plots w = [] \<and>
         (output' w = ''Running...'' \<or>
          (\<exists>e b. pc (hd (runs w)) = AwaitDrain \<and> pyodide w = Some e \<and>
                 sys_stdout e = StringIO b \<and> output' w = or_completed b))"
  using assms
  by (cases "pc (hd (runs w)) = AwaitDrain")
     (auto simp: visible_def display_inv_def drained_text_def getvalue_def
        split: option.splits stream.splits)

text \<open>
  C8, as amended: the session has one pair of output and images. The step that starts a
  run replaces the pair by the placeholder \<open>Running...\<close> and no images, at once.
  While the run is in flight no image is shown, and the output is the placeholder or,
  once line 80 has run, the text of the buffer. The step that ends the run shows either an
  error message and no images, or the text of the buffer and the images of the open
  figures (in the order of their numbers), both read off the engine as that run left it. While no run is in flight the pair
  does not change. (State updates of one continuation show together.)
\<close>

theorem C8_display_of_one_run:
  assumes "w = steps exec savefig evs init"
  shows "(runs w \<noteq> [] \<longrightarrow>
            plots w = [] \<and>
            (output' w = ''Running...'' \<or>
             (\<exists>e b. pc (hd (runs w)) = AwaitDrain \<and> pyodide w = Some e \<and>
                    sys_stdout e = StringIO b \<and> output' w = or_completed b))) \<and>
         (runs w = [] \<and> runs (step exec savefig ev w) \<noteq> [] \<longrightarrow>
            output' (step exec savefig ev w) = ''Running...'' \<and>
            plots (step exec savefig ev w) = []) \<and>
         (runs w = [] \<and> runs (step exec savefig ev w) = [] \<longrightarrow>
            output' (step exec savefig ev w) = output' w \<and>
            plots (step exec savefig ev w) = plots w) \<and>
         (runs w \<noteq> [] \<and> runs (step exec savefig ev w) = [] \<longrightarrow>
            (\<exists>message. output' (step exec savefig ev w) = ''Error: '' @ message \<and>
                       plots (step exec savefig ev w) = []) \<or>
            (\<exists>e b. pyodide w = Some e \<and> sys_stdout e = StringIO b \<and>
                   output' (step exec savefig ev w) = or_completed b \<and>
                   plots (step exec savefig ev w) = map (savefig \<circ> snd) (get_fignums e)))"
proof -
  have v: "visible w"
    using assms by (simp add: visible_reachable)
  show ?thesis
    using flight_display[OF v] start_display[of w exec savefig ev]
      idle_display[of w exec savefig ev] end_display[OF v, of exec savefig ev]
    by blast
qed

theorem C8_display_of_one_run_witness:
  "runs (sample_run (load_ok @ [Edit (Some ''print('ok'); plt.figure('A')''), Click,
      Settle 0, Settle 0, Settle 0])) \<noteq> [] \<and>
   plots (sample_run (load_ok @ [Edit (Some ''print('ok'); plt.figure('A')''), Click,
      Settle 0, Settle 0, Settle 0])) = [] \<and>
   output' (sample_run (load_ok @ [Edit (Some ''print('ok'); plt.figure('A')''), Click,
      Settle 0, Settle 0, Settle 0])) = ''ok\<newline>'' \<and>
   runs (sample_run (load_ok @ submit ''print('ok'); plt.figure('A')'')) = [] \<and>
   output' (sample_run (load_ok @ submit ''print('ok'); plt.figure('A')'')) = ''ok\<newline>'' \<and>
   plots (sample_run (load_ok @ submit ''print('ok'); plt.figure('A')'')) = [''png:A'']"
proof -
  let ?evs = "load_ok @ [Edit (Some ''print('ok'); plt.figure('A')''), Click,
      Settle 0, Settle 0, Settle 0]"
  have w: "sample_run ?evs = steps sample_exec sample_savefig ?evs init"
    by (simp add: sample_run_def)
  have e: "pyodide (sample_run ?evs) =
      Some \<lparr>sys_stdout = StringIO ''ok\<newline>'', figs = [(1, ''A'')], import_fault = None,
            plt_fault = None\<rparr>"
    and r: "runs (sample_run ?evs) = [\<lparr>pc = AwaitDrain, code = ''print('ok'); plt.figure('A')''\<rparr>]"
    by (simp_all add: sample_defs)
  have r': "runs (step sample_exec sample_savefig (Settle 0) (sample_run ?evs)) = []"
    and o': "\<not> (\<exists>message. output' (step sample_exec sample_savefig (Settle 0) (sample_run ?evs)) =
      ''Error: '' @ message)"
    and o: "output' (sample_run ?evs) \<noteq> ''Running...''"
    by (simp_all add: sample_defs)
  have "plots (sample_run ?evs) = [] \<and> output' (sample_run ?evs) = ''ok\<newline>'' \<and>
      output' (step sample_exec sample_savefig (Settle 0) (sample_run ?evs)) = ''ok\<newline>'' \<and>
      plots (step sample_exec sample_savefig (Settle 0) (sample_run ?evs)) = [''png:A'']"
    using C8_display_of_one_run[OF w, of "Settle 0"] e r r' o' o
    by (auto simp: or_completed_def sample_savefig_def get_fignums_def)
  then show ?thesis
    using r r' by (simp add: sample_run_def load_ok_def submit_def)
qed

text \<open>
  C8 as stated fails: while the second run is in flight, the page shows its text and no
  images, which is neither the outcome of the run completed last nor the outcome this run
  ends with.
\<close>

theorem C8_partial_result_counterexample:
  "output' (sample_run (load_ok @ submit ''print(1+1)'')) = ''2\<newline>'' \<and>
   plots (sample_run (load_ok @ submit ''print(1+1)'')) = [] \<and>
   runs (sample_run (load_ok @ submit ''print(1+1)'')) = [] \<and>
   isRunning (sample_run (load_ok @ submit ''print(1+1)'' @
      [Edit (Some ''print('ok'); plt.figure('A')''), Click, Settle 0, Settle 0, Settle 0])) \<and>
   output' (sample_run (load_ok @ submit ''print(1+1)'' @
      [Edit (Some ''print('ok'); plt.figure('A')''), Click, Settle 0, Settle 0, Settle 0])) =
      ''ok\<newline>'' \<and>
   plots (sample_run (load_ok @ submit ''print(1+1)'' @
      [Edit (Some ''print('ok'); plt.figure('A')''), Click, Settle 0, Settle 0, Settle 0])) = [] \<and>
   plots (sample_run (load_ok @ submit ''print(1+1)'' @
      submit ''print('ok'); plt.figure('A')'')) = [''png:A'']"
  by (simp add: sample_defs)

end
